theory Spec2Isabelle
  imports Main
begin

section \<open>The composed structures, at the level of values\<close>

text \<open>
  An operation of the library is a stateless functor type; a composed structure holds one
  default-constructed instance of each (\<^verbatim>\<open>static inline constexpr Addition addition{};\<close>).
  The instance is modelled by the function its call operator computes, and a structure by
  the record of its entry points.

  The record \<open>vector_space_like\<close> lists the entry points every vector-space-like structure
  exposes: the five operation holders and \<open>difference\<close>. The template \<^verbatim>\<open>VectorSpace\<close>
  is the function building such a record from five operations; a structure written by
  hand may fill \<open>difference\<close> as it likes.

  The constraints on an operation (\<^verbatim>\<open>CallableLike\<close>) ask that its result converts to
  the element type (to \<^verbatim>\<open>bool\<close> for equality), not that it is that type. Each operation
  therefore has a result type of its own: \<open>'ra\<close> for addition, \<open>'rs\<close> for the scalar
  action, \<open>'rn\<close> for negation, \<open>'rz\<close> for the zero supplier and \<open>'rq\<close> for equality.
  Only \<open>difference\<close> is declared with the element type as its result.
\<close>

record ('e, 's, 'ra, 'rs, 'rn, 'rz, 'rq) vector_space_like =
  addition :: "'e \<Rightarrow> 'e \<Rightarrow> 'ra"
  scalar_action :: "'s \<Rightarrow> 'e \<Rightarrow> 'rs"
  negation :: "'e \<Rightarrow> 'rn"
  zero_supplier :: "unit \<Rightarrow> 'rz"
  equality :: "'e \<Rightarrow> 'e \<Rightarrow> 'rq"
  difference :: "'e \<Rightarrow> 'e \<Rightarrow> 'e"

text \<open>
  \<^verbatim>\<open>struct VectorSpace\<close> (vector\_space.hpp): the five instances are stored as they are
  given, and
  \<^verbatim>\<open>static constexpr element_type difference(const element_type& element_left,
                                           const element_type& element_right) {
      return addition(element_left, negation(element_right));
  }\<close>
  The call operator of an operation takes elements, so the result of \<^verbatim>\<open>negation\<close> is
  converted to the element type when it is passed to \<^verbatim>\<open>addition\<close>, and the result of
  \<^verbatim>\<open>addition\<close> is converted to the element type by the \<^verbatim>\<open>return\<close>. The two implicit
  conversions belong to the caller's types; they are the parameters \<open>element_of_sum\<close>
  and \<open>element_of_negation\<close>, the identity when the operation returns the element type
  itself.
\<close>

definition VectorSpace ::
  "('ra \<Rightarrow> 'e) \<Rightarrow> ('rn \<Rightarrow> 'e)
    \<Rightarrow> ('e \<Rightarrow> 'e \<Rightarrow> 'ra) \<Rightarrow> ('s \<Rightarrow> 'e \<Rightarrow> 'rs) \<Rightarrow> ('e \<Rightarrow> 'rn) \<Rightarrow> (unit \<Rightarrow> 'rz)
    \<Rightarrow> ('e \<Rightarrow> 'e \<Rightarrow> 'rq)
    \<Rightarrow> ('e, 's, 'ra, 'rs, 'rn, 'rz, 'rq) vector_space_like" where
  "VectorSpace element_of_sum element_of_negation
       Addition ScalarAction Negation ZeroSupplier Equality =
     \<lparr> addition = Addition,
       scalar_action = ScalarAction,
       negation = Negation,
       zero_supplier = ZeroSupplier,
       equality = Equality,
       difference = (\<lambda>element_left element_right.
                       element_of_sum
                         (Addition element_left
                            (element_of_negation (Negation element_right)))) \<rparr>"

text \<open>
  \<^verbatim>\<open>struct MetricSpace\<close> (metric\_space.hpp): one stored instance \<^verbatim>\<open>distance\<close>, and the
  static function \<^verbatim>\<open>dist\<close> returning \<^verbatim>\<open>distance(element_left, element_right)\<close>.
\<close>

record ('e, 'm) metric_space_like =
  distance :: "'e \<Rightarrow> 'e \<Rightarrow> 'm"

definition MetricSpace :: "('e \<Rightarrow> 'e \<Rightarrow> 'm) \<Rightarrow> ('e, 'm) metric_space_like" where
  "MetricSpace DistanceFunction = \<lparr> distance = DistanceFunction \<rparr>"

definition dist :: "('e, 'm, 'z) metric_space_like_scheme \<Rightarrow> 'e \<Rightarrow> 'e \<Rightarrow> 'm" where
  "dist MS element_left element_right = distance MS element_left element_right"

text \<open>
  \<^verbatim>\<open>struct NormedSpace : VS\<close> (normed\_space.hpp). Inheritance is record extension: the
  normed space has every entry point of \<open>VS\<close> and, in addition, the stored instance
  \<^verbatim>\<open>norm\<close>. Members of \<open>VS\<close> beyond the six entry points are not part of the model.
\<close>

record ('e, 's, 'ra, 'rs, 'rn, 'rz, 'rq, 'm) normed_space =
  "('e, 's, 'ra, 'rs, 'rn, 'rz, 'rq) vector_space_like" +
  norm :: "'e \<Rightarrow> 'm"

definition NormedSpace ::
  "('e, 's, 'ra, 'rs, 'rn, 'rz, 'rq, 'z) vector_space_like_scheme \<Rightarrow> ('e \<Rightarrow> 'm)
    \<Rightarrow> ('e, 's, 'ra, 'rs, 'rn, 'rz, 'rq, 'm) normed_space" where
  "NormedSpace VS NormFunction =
     vector_space_like.extend (vector_space_like.truncate VS) (normed_space.fields NormFunction)"

text \<open>
  \<^verbatim>\<open>NormedSpace::InducedDistance::operator()\<close> returns
  \<^verbatim>\<open>norm( VS::difference(element_left, element_right) )\<close>, where \<^verbatim>\<open>norm\<close> is the instance
  stored in the enclosing normed space and \<^verbatim>\<open>VS::difference\<close> the entry point of the base.
\<close>

definition InducedDistance ::
  "('e, 's, 'ra, 'rs, 'rn, 'rz, 'rq, 'z) vector_space_like_scheme \<Rightarrow> ('e \<Rightarrow> 'm)
    \<Rightarrow> 'e \<Rightarrow> 'e \<Rightarrow> 'm" where
  "InducedDistance VS NormFunction element_left element_right =
     norm (NormedSpace VS NormFunction) (difference VS element_left element_right)"

text \<open>\<^verbatim>\<open>using metric_space = MetricSpace<element_type, InducedDistance>;\<close>\<close>

definition metric_space ::
  "('e, 's, 'ra, 'rs, 'rn, 'rz, 'rq, 'z) vector_space_like_scheme \<Rightarrow> ('e \<Rightarrow> 'm)
    \<Rightarrow> ('e, 'm) metric_space_like" where
  "metric_space VS NormFunction = MetricSpace (InducedDistance VS NormFunction)"

text \<open>
  \<^verbatim>\<open>NormedSpace::distance\<close> returns \<^verbatim>\<open>metric_space::dist(element_left, element_right)\<close>.
\<close>

definition NormedSpace_distance ::
  "('e, 's, 'ra, 'rs, 'rn, 'rz, 'rq, 'z) vector_space_like_scheme \<Rightarrow> ('e \<Rightarrow> 'm)
    \<Rightarrow> 'e \<Rightarrow> 'e \<Rightarrow> 'm" where
  "NormedSpace_distance VS NormFunction element_left element_right =
     dist (metric_space VS NormFunction) element_left element_right"

section \<open>Composition at the level of types\<close>

text \<open>
  Whether a structure can be composed is decided when it is defined, from the types
  involved. A type is a name, a reference to constant, a specialisation of one of the
  library's templates, or a member type of another type. The element type handed to a
  composer is taken to be an object type (no reference collapsing is modelled).
\<close>

datatype ctype =
    Ty string
  | ConstRef ctype
  | Inst string "ctype list"
  | Nested ctype string

datatype binop = Plus | Minus | Times | Divide | Equal | Less | LessEqual

text \<open>
  What the compiler knows of the caller's types, as far as the constraints ask:
  \<^item> \<open>binary_op env op T\<close>: the type of \<^verbatim>\<open>lhs op rhs\<close> for two operands of type \<open>T\<close>, or
    \<open>None\<close> when the expression is ill-formed;
  \<^item> \<open>invoke_result env F Args\<close>: \<^verbatim>\<open>std::invoke_result_t<F, Args...>\<close>, or \<open>None\<close> when
    \<open>F\<close> is not invocable with \<open>Args\<close>;
  \<^item> \<open>convertible_to env From To\<close>: \<^verbatim>\<open>std::convertible_to<From, To>\<close>;
  \<^item> \<open>default_initializable env T\<close>: \<^verbatim>\<open>std::default_initializable<T>\<close>.
\<close>

record type_env =
  binary_op :: "binop \<Rightarrow> ctype \<Rightarrow> ctype option"
  invoke_result :: "ctype \<Rightarrow> ctype list \<Rightarrow> ctype option"
  convertible_to :: "ctype \<Rightarrow> ctype \<Rightarrow> bool"
  default_initializable :: "ctype \<Rightarrow> bool"

text \<open>The concepts of concepts/core\_concepts.hpp, one conjunct per requirement.\<close>

definition FieldLike :: "type_env \<Rightarrow> ctype \<Rightarrow> bool" where
  "FieldLike env ScalarType \<longleftrightarrow>
     binary_op env Plus ScalarType = Some ScalarType \<and>
     binary_op env Minus ScalarType = Some ScalarType \<and>
     binary_op env Times ScalarType = Some ScalarType \<and>
     binary_op env Divide ScalarType = Some ScalarType \<and>
     (case binary_op env Equal ScalarType of
        None \<Rightarrow> False
      | Some R \<Rightarrow> convertible_to env R (Ty ''bool''))"

definition OrderedMeasure :: "type_env \<Rightarrow> ctype \<Rightarrow> bool" where
  "OrderedMeasure env MeasureType \<longleftrightarrow>
     binary_op env Plus MeasureType = Some MeasureType \<and>
     (case binary_op env Equal MeasureType of
        None \<Rightarrow> False
      | Some R \<Rightarrow> convertible_to env R (Ty ''bool'')) \<and>
     (case binary_op env Less MeasureType of
        None \<Rightarrow> False
      | Some R \<Rightarrow> convertible_to env R (Ty ''bool'')) \<and>
     (case binary_op env LessEqual MeasureType of
        None \<Rightarrow> False
      | Some R \<Rightarrow> convertible_to env R (Ty ''bool''))"

text \<open>
  \<^verbatim>\<open>CallableLike<F, R, Args...>\<close>: \<open>F\<close> is invocable with \<open>Args\<close> (regularity is a
  promise of the caller, not a check) and the result converts to \<open>R\<close>.
\<close>

definition CallableLike :: "type_env \<Rightarrow> ctype \<Rightarrow> ctype \<Rightarrow> ctype list \<Rightarrow> bool" where
  "CallableLike env F R Args \<longleftrightarrow>
     (case invoke_result env F Args of
        None \<Rightarrow> False
      | Some T \<Rightarrow> convertible_to env T R)"

text \<open>
  A structure is the list of its member declarations: a member type name, a static
  object, a static function, a non-static data member, or an enumerator of an unscoped
  enumeration declared in the structure. Lookup takes the first declaration of a name, so
  the members a derived structure declares, listed before those of its base, hide the
  base's.
\<close>

datatype member =
    TypeAlias ctype
  | StaticObject ctype
  | StaticFunction "ctype list" ctype
  | DataMember ctype
  | Enumerator

type_synonym struct_decl = "(string \<times> member) list"

text \<open>\<^verbatim>\<open>typename T::name\<close>\<close>

definition member_type :: "struct_decl \<Rightarrow> string \<Rightarrow> ctype option" where
  "member_type T name =
     (case map_of T name of
        Some (TypeAlias t) \<Rightarrow> Some t
      | Some (StaticObject F) \<Rightarrow> None
      | Some (StaticFunction params ret) \<Rightarrow> None
      | Some (DataMember F) \<Rightarrow> None
      | Some Enumerator \<Rightarrow> None
      | None \<Rightarrow> None)"

text \<open>
  The requirement \<^verbatim>\<open>{ T::name };\<close> holds: the expression \<^verbatim>\<open>T::name\<close> is well-formed
  as an unevaluated operand. A static member and an enumerator can be named so anywhere;
  a non-static data member can be named without an object where nothing is evaluated, as
  in the body of a requires-expression.
\<close>

definition member_expr :: "struct_decl \<Rightarrow> string \<Rightarrow> bool" where
  "member_expr T name =
     (case map_of T name of
        Some (TypeAlias t) \<Rightarrow> False
      | Some (StaticObject F) \<Rightarrow> True
      | Some (StaticFunction params ret) \<Rightarrow> True
      | Some (DataMember F) \<Rightarrow> True
      | Some Enumerator \<Rightarrow> True
      | None \<Rightarrow> False)"

text \<open>
  The type of the expression \<^verbatim>\<open>T::name(args...)\<close> as an unevaluated operand, or \<open>None\<close>
  when it is ill-formed. A static function is called when every argument has the type of
  its parameter or converts to it; an object, static or not, is invoked as the functor it
  is; an enumerator cannot be called.
\<close>

definition binds :: "type_env \<Rightarrow> ctype list \<Rightarrow> ctype list \<Rightarrow> bool" where
  "binds env args params =
     list_all2 (\<lambda>arg param. arg = param \<or> convertible_to env arg param) args params"

definition call_type :: "type_env \<Rightarrow> struct_decl \<Rightarrow> string \<Rightarrow> ctype list \<Rightarrow> ctype option" where
  "call_type env T name args =
     (case map_of T name of
        Some (TypeAlias t) \<Rightarrow> None
      | Some (StaticObject F) \<Rightarrow> invoke_result env F args
      | Some (StaticFunction params ret) \<Rightarrow> if binds env args params then Some ret else None
      | Some (DataMember F) \<Rightarrow> invoke_result env F args
      | Some Enumerator \<Rightarrow> None
      | None \<Rightarrow> None)"

text \<open>
  \<^verbatim>\<open>concept VectorSpaceLike\<close> (vector\_space.hpp): two type names, five expressions, and
  the call of \<^verbatim>\<open>difference\<close> on two \<^verbatim>\<open>const element_type&\<close>, whose type must be the same
  as \<^verbatim>\<open>element_type\<close>.
\<close>

definition VectorSpaceLike :: "type_env \<Rightarrow> struct_decl \<Rightarrow> bool" where
  "VectorSpaceLike env T \<longleftrightarrow>
     (case member_type T ''element_type'' of
        None \<Rightarrow> False
      | Some element_type \<Rightarrow>
          member_type T ''scalar_type'' \<noteq> None \<and>
          member_expr T ''addition'' \<and>
          member_expr T ''scalar_action'' \<and>
          member_expr T ''negation'' \<and>
          member_expr T ''zero_supplier'' \<and>
          member_expr T ''equality'' \<and>
          call_type env T ''difference'' [ConstRef element_type, ConstRef element_type]
            = Some element_type)"

text \<open>\<^verbatim>\<open>concept MetricSpaceLike\<close> (metric\_space.hpp).\<close>

definition MetricSpaceLike :: "type_env \<Rightarrow> struct_decl \<Rightarrow> bool" where
  "MetricSpaceLike env T \<longleftrightarrow>
     (case member_type T ''element_type'' of
        None \<Rightarrow> False
      | Some element_type \<Rightarrow>
          (case member_type T ''measure_type'' of
             None \<Rightarrow> False
           | Some measure_type \<Rightarrow>
               call_type env T ''distance'' [ConstRef element_type, ConstRef element_type]
                 = Some measure_type))"

text \<open>
  \<^verbatim>\<open>template <...> requires ... struct VectorSpace\<close>: the constraints on the template's
  arguments, then the members the structure declares. A composition whose constraints
  fail yields no structure.
\<close>

definition VectorSpace_constraints ::
  "type_env \<Rightarrow> ctype \<Rightarrow> ctype \<Rightarrow> ctype \<Rightarrow> ctype \<Rightarrow> ctype \<Rightarrow> ctype \<Rightarrow> ctype \<Rightarrow> bool" where
  "VectorSpace_constraints env ElementType ScalarType Addition ScalarAction Negation
       ZeroSupplier Equality \<longleftrightarrow>
     FieldLike env ScalarType \<and>
     default_initializable env Addition \<and>
     default_initializable env ScalarAction \<and>
     default_initializable env Negation \<and>
     default_initializable env ZeroSupplier \<and>
     default_initializable env Equality \<and>
     CallableLike env Addition ElementType [ConstRef ElementType, ConstRef ElementType] \<and>
     CallableLike env ScalarAction ElementType [ConstRef ScalarType, ConstRef ElementType] \<and>
     CallableLike env Negation ElementType [ConstRef ElementType] \<and>
     CallableLike env ZeroSupplier ElementType [] \<and>
     CallableLike env Equality (Ty ''bool'') [ConstRef ElementType, ConstRef ElementType]"

definition VectorSpace_members ::
  "ctype \<Rightarrow> ctype \<Rightarrow> ctype \<Rightarrow> ctype \<Rightarrow> ctype \<Rightarrow> ctype \<Rightarrow> ctype \<Rightarrow> struct_decl" where
  "VectorSpace_members ElementType ScalarType Addition ScalarAction Negation
       ZeroSupplier Equality =
     [(''element_type'', TypeAlias ElementType),
      (''scalar_type'', TypeAlias ScalarType),
      (''addition'', StaticObject Addition),
      (''scalar_action'', StaticObject ScalarAction),
      (''negation'', StaticObject Negation),
      (''zero_supplier'', StaticObject ZeroSupplier),
      (''equality'', StaticObject Equality),
      (''difference'',
         StaticFunction [ConstRef ElementType, ConstRef ElementType] ElementType)]"

definition VectorSpace_compose ::
  "type_env \<Rightarrow> ctype \<Rightarrow> ctype \<Rightarrow> ctype \<Rightarrow> ctype \<Rightarrow> ctype \<Rightarrow> ctype \<Rightarrow> ctype
    \<Rightarrow> struct_decl option" where
  "VectorSpace_compose env ElementType ScalarType Addition ScalarAction Negation
       ZeroSupplier Equality =
     (if VectorSpace_constraints env ElementType ScalarType Addition ScalarAction Negation
           ZeroSupplier Equality
      then Some (VectorSpace_members ElementType ScalarType Addition ScalarAction Negation
           ZeroSupplier Equality)
      else None)"

text \<open>
  \<^verbatim>\<open>template <...> requires ... struct MetricSpace\<close>. The measure type is the result of
  invoking the distance operation on two \<^verbatim>\<open>const ElementType&\<close>; without such a result
  the constraint cannot be satisfied.
\<close>

definition MetricSpace_compose :: "type_env \<Rightarrow> ctype \<Rightarrow> ctype \<Rightarrow> struct_decl option" where
  "MetricSpace_compose env ElementType DistanceFunction =
     (case invoke_result env DistanceFunction [ConstRef ElementType, ConstRef ElementType] of
        None \<Rightarrow> None
      | Some measure_type \<Rightarrow>
          if default_initializable env DistanceFunction \<and> OrderedMeasure env measure_type
          then Some
            [(''element_type'', TypeAlias ElementType),
             (''measure_type'', TypeAlias measure_type),
             (''distance'', StaticObject DistanceFunction),
             (''dist'',
                StaticFunction [ConstRef ElementType, ConstRef ElementType] measure_type)]
          else None)"

text \<open>
  \<^verbatim>\<open>struct NormedSpace : VS\<close>. The structure is named by its template arguments; \<open>VS_T\<close>
  is the name of the base and \<open>VS\<close> its members. The nested functor
  \<^verbatim>\<open>InducedDistance\<close> is a type the structure itself declares: default-initializable, and
  invocable on two \<^verbatim>\<open>const element_type&\<close> with result \<^verbatim>\<open>measure_type\<close>.
\<close>

definition NormedSpace_type :: "ctype \<Rightarrow> ctype \<Rightarrow> ctype" where
  "NormedSpace_type VS_T NormFunction = Inst ''NormedSpace'' [VS_T, NormFunction]"

definition InducedDistance_type :: "ctype \<Rightarrow> ctype \<Rightarrow> ctype" where
  "InducedDistance_type VS_T NormFunction =
     Nested (NormedSpace_type VS_T NormFunction) ''InducedDistance''"

definition declare_functor :: "ctype \<Rightarrow> ctype list \<Rightarrow> ctype \<Rightarrow> type_env \<Rightarrow> type_env" where
  "declare_functor F params ret env =
     env\<lparr> invoke_result :=
            (\<lambda>G args. if G = F then (if binds env args params then Some ret else None)
                       else invoke_result env G args),
          default_initializable := (\<lambda>G. G = F \<or> default_initializable env G) \<rparr>"

text \<open>
  \<^verbatim>\<open>using metric_space = MetricSpace<element_type, InducedDistance>;\<close> the internal metric
  structure, composed by the metric-space template like any other.
\<close>

definition NormedSpace_metric_space ::
  "type_env \<Rightarrow> ctype \<Rightarrow> struct_decl \<Rightarrow> ctype \<Rightarrow> struct_decl option" where
  "NormedSpace_metric_space env VS_T VS NormFunction =
     (case member_type VS ''element_type'' of
        None \<Rightarrow> None
      | Some element_type \<Rightarrow>
          (case invoke_result env NormFunction [ConstRef element_type] of
             None \<Rightarrow> None
           | Some measure_type \<Rightarrow>
               MetricSpace_compose
                 (declare_functor (InducedDistance_type VS_T NormFunction)
                    [ConstRef element_type, ConstRef element_type] measure_type env)
                 element_type (InducedDistance_type VS_T NormFunction)))"

definition MetricSpace_type :: "ctype \<Rightarrow> ctype \<Rightarrow> ctype" where
  "MetricSpace_type ElementType DistanceFunction =
     Inst ''MetricSpace'' [ElementType, DistanceFunction]"

text \<open>
  The members \<^verbatim>\<open>NormedSpace\<close> declares itself, followed by those it inherits from \<open>VS\<close>.
\<close>

definition NormedSpace_members ::
  "ctype \<Rightarrow> struct_decl \<Rightarrow> ctype \<Rightarrow> ctype \<Rightarrow> ctype \<Rightarrow> struct_decl" where
  "NormedSpace_members VS_T VS NormFunction element_type measure_type =
     [(''element_type'', TypeAlias element_type),
      (''measure_type'', TypeAlias measure_type),
      (''norm'', StaticObject NormFunction),
      (''InducedDistance'', TypeAlias (InducedDistance_type VS_T NormFunction)),
      (''metric_space'',
         TypeAlias (MetricSpace_type element_type (InducedDistance_type VS_T NormFunction))),
      (''metric_type'',
         TypeAlias (MetricSpace_type element_type (InducedDistance_type VS_T NormFunction))),
      (''distance'',
         StaticFunction [ConstRef element_type, ConstRef element_type] measure_type)]
     @ VS"

definition NormedSpace_compose ::
  "type_env \<Rightarrow> ctype \<Rightarrow> struct_decl \<Rightarrow> ctype \<Rightarrow> struct_decl option" where
  "NormedSpace_compose env VS_T VS NormFunction =
     (if VectorSpaceLike env VS \<and> default_initializable env NormFunction then
        (case member_type VS ''element_type'' of
           None \<Rightarrow> None
         | Some element_type \<Rightarrow>
             (case invoke_result env NormFunction [ConstRef element_type] of
                None \<Rightarrow> None
              | Some measure_type \<Rightarrow>
                  if OrderedMeasure env measure_type then
                    (case NormedSpace_metric_space env VS_T VS NormFunction of
                       None \<Rightarrow> None
                     | Some MS \<Rightarrow>
                         Some (NormedSpace_members VS_T VS NormFunction
                                 element_type measure_type))
                  else None))
      else None)"

section \<open>The example function space\<close>

text \<open>
  examples/minimal\_function\_space.cpp. \<^verbatim>\<open>ScalarType\<close> is \<^verbatim>\<open>double\<close>; it is kept abstract
  as a type \<open>'d\<close> with the operations the example applies to it (\<open>+\<close>, \<open>*\<close>, unary
  \<open>-\<close> and the literal \<open>0\<close>). An element is an evaluator together with its symbolic
  identity, a string.
\<close>

record 'd RealFunctionElement =
  evaluator :: "'d \<Rightarrow> 'd"
  symbolic_identity :: string

definition FunctionAddition ::
  "('d::plus) RealFunctionElement \<Rightarrow> 'd RealFunctionElement \<Rightarrow> 'd RealFunctionElement" where
  "FunctionAddition function_left function_right =
     \<lparr> evaluator = (\<lambda>x. evaluator function_left x + evaluator function_right x),
       symbolic_identity =
         ''('' @ symbolic_identity function_left @ '' + '' @
           symbolic_identity function_right @ '')'' \<rparr>"

text \<open>
  \<^verbatim>\<open>std::to_string\<close> belongs to the standard library; the scalar action takes it as the
  parameter \<open>to_string\<close>.
\<close>

definition FunctionScalarAction ::
  "('d \<Rightarrow> string) \<Rightarrow> ('d::times) \<Rightarrow> 'd RealFunctionElement \<Rightarrow> 'd RealFunctionElement" where
  "FunctionScalarAction to_string scalar_value function_value =
     \<lparr> evaluator = (\<lambda>x. scalar_value * evaluator function_value x),
       symbolic_identity =
         ''('' @ to_string scalar_value @ '' * '' @ symbolic_identity function_value @ '')'' \<rparr>"

definition FunctionNegation ::
  "('d::uminus) RealFunctionElement \<Rightarrow> 'd RealFunctionElement" where
  "FunctionNegation function_value =
     \<lparr> evaluator = (\<lambda>x. - evaluator function_value x),
       symbolic_identity = ''(-'' @ symbolic_identity function_value @ '')'' \<rparr>"

definition FunctionZeroSupplier :: "unit \<Rightarrow> ('d::zero) RealFunctionElement" where
  "FunctionZeroSupplier u = \<lparr> evaluator = (\<lambda>x. 0), symbolic_identity = ''0'' \<rparr>"

definition FunctionEquality ::
  "'d RealFunctionElement \<Rightarrow> 'd RealFunctionElement \<Rightarrow> bool" where
  "FunctionEquality function_left function_right \<longleftrightarrow>
     symbolic_identity function_left = symbolic_identity function_right"

text \<open>
  Every functor of the example returns \<^verbatim>\<open>RealFunctionElement\<close> itself (\<^verbatim>\<open>bool\<close> for
  equality), so the two conversions of \<^verbatim>\<open>difference\<close> are the identity.
\<close>

definition FunctionVectorSpace ::
  "('d \<Rightarrow> string)
    \<Rightarrow> ('d::{plus,times,uminus,zero} RealFunctionElement, 'd, 'd RealFunctionElement,
        'd RealFunctionElement, 'd RealFunctionElement, 'd RealFunctionElement, bool)
       vector_space_like" where
  "FunctionVectorSpace to_string =
     VectorSpace (\<lambda>sum. sum) (\<lambda>negated. negated)
       FunctionAddition (FunctionScalarAction to_string) FunctionNegation
       FunctionZeroSupplier FunctionEquality"

text \<open>\<^verbatim>\<open>SupNormPlaceholder::operator()\<close> returns \<^verbatim>\<open>0.0\<close> whatever the element.\<close>

definition SupNormPlaceholder :: "'d RealFunctionElement \<Rightarrow> ('d::zero)" where
  "SupNormPlaceholder element = 0"

definition FunctionSupNormedSpace ::
  "('d \<Rightarrow> string)
    \<Rightarrow> ('d::{plus,times,uminus,zero} RealFunctionElement, 'd, 'd RealFunctionElement,
        'd RealFunctionElement, 'd RealFunctionElement, 'd RealFunctionElement, bool, 'd)
       normed_space" where
  "FunctionSupNormedSpace to_string =
     NormedSpace (FunctionVectorSpace to_string) SupNormPlaceholder"

text \<open>
  \<^verbatim>\<open>FunctionSupNormedSpace::distance\<close>, the distance entry point of the normed space
  above.
\<close>

definition FunctionSupNormedSpace_distance ::
  "('d \<Rightarrow> string) \<Rightarrow> ('d::{plus,times,uminus,zero}) RealFunctionElement
    \<Rightarrow> 'd RealFunctionElement \<Rightarrow> 'd" where
  "FunctionSupNormedSpace_distance to_string =
     NormedSpace_distance (FunctionVectorSpace to_string) SupNormPlaceholder"

text \<open>
  The two elements of \<^verbatim>\<open>main\<close>. Their evaluators call \<^verbatim>\<open>std::sin\<close> and \<^verbatim>\<open>std::cos\<close>;
  they are parameters here, since no entry point used below evaluates them.
\<close>

definition sin_function :: "('d \<Rightarrow> 'd) \<Rightarrow> 'd RealFunctionElement" where
  "sin_function std_sin = \<lparr> evaluator = std_sin, symbolic_identity = ''sin'' \<rparr>"

definition cos_function :: "('d \<Rightarrow> 'd) \<Rightarrow> 'd RealFunctionElement" where
  "cos_function std_cos = \<lparr> evaluator = std_cos, symbolic_identity = ''cos'' \<rparr>"

text \<open>
  The example at the level of types: the built-in operators of \<^verbatim>\<open>double\<close>, and the call
  operators the example's functors declare (parameter types, result type). A functor is
  invoked when each argument is the parameter's type or the object type it refers to;
  every functor of the example is an aggregate without members, hence
  default-initializable. A type converts to itself, and a reference to constant to the
  object type it refers to (both \<^verbatim>\<open>double\<close> and \<^verbatim>\<open>RealFunctionElement\<close> can be copied).
\<close>

definition example_functors :: "(string \<times> ctype list \<times> ctype) list" where
  "example_functors =
     [(''FunctionAddition'',
         [ConstRef (Ty ''RealFunctionElement''), ConstRef (Ty ''RealFunctionElement'')],
         Ty ''RealFunctionElement''),
      (''FunctionScalarAction'',
         [ConstRef (Ty ''double''), ConstRef (Ty ''RealFunctionElement'')],
         Ty ''RealFunctionElement''),
      (''FunctionNegation'',
         [ConstRef (Ty ''RealFunctionElement'')],
         Ty ''RealFunctionElement''),
      (''FunctionZeroSupplier'', [], Ty ''RealFunctionElement''),
      (''FunctionEquality'',
         [ConstRef (Ty ''RealFunctionElement''), ConstRef (Ty ''RealFunctionElement'')],
         Ty ''bool''),
      (''SupNormPlaceholder'', [ConstRef (Ty ''RealFunctionElement'')], Ty ''double'')]"

definition example_env :: type_env where
  "example_env =
     \<lparr> binary_op = (\<lambda>op T.
         if T = Ty ''double'' then
           (case op of
              Plus \<Rightarrow> Some (Ty ''double'')
            | Minus \<Rightarrow> Some (Ty ''double'')
            | Times \<Rightarrow> Some (Ty ''double'')
            | Divide \<Rightarrow> Some (Ty ''double'')
            | Equal \<Rightarrow> Some (Ty ''bool'')
            | Less \<Rightarrow> Some (Ty ''bool'')
            | LessEqual \<Rightarrow> Some (Ty ''bool''))
         else None),
       invoke_result = (\<lambda>F args.
         case F of
           Ty name \<Rightarrow>
             (case map_of example_functors name of
                None \<Rightarrow> None
              | Some (params, ret) \<Rightarrow>
                  if list_all2 (\<lambda>arg param. arg = param \<or> ConstRef arg = param) args params
                  then Some ret else None)
         | ConstRef T \<Rightarrow> None
         | Inst name Ts \<Rightarrow> None
         | Nested T name \<Rightarrow> None),
       convertible_to = (\<lambda>From To. From = To \<or> From = ConstRef To),
       default_initializable = (\<lambda>T.
         case T of
           Ty name \<Rightarrow> map_of example_functors name \<noteq> None
         | ConstRef T \<Rightarrow> False
         | Inst name Ts \<Rightarrow> False
         | Nested T name \<Rightarrow> False) \<rparr>"

text \<open>\<^verbatim>\<open>using FunctionVectorSpace = kuukan::VectorSpace<...>;\<close>\<close>

definition FunctionVectorSpace_type :: ctype where
  "FunctionVectorSpace_type =
     Inst ''VectorSpace''
       [Ty ''RealFunctionElement'', Ty ''double'', Ty ''FunctionAddition'',
        Ty ''FunctionScalarAction'', Ty ''FunctionNegation'', Ty ''FunctionZeroSupplier'',
        Ty ''FunctionEquality'']"

definition FunctionVectorSpace_members :: struct_decl where
  "FunctionVectorSpace_members =
     VectorSpace_members (Ty ''RealFunctionElement'') (Ty ''double'') (Ty ''FunctionAddition'')
       (Ty ''FunctionScalarAction'') (Ty ''FunctionNegation'') (Ty ''FunctionZeroSupplier'')
       (Ty ''FunctionEquality'')"

text \<open>\<^verbatim>\<open>using FunctionSupNormedSpace = kuukan::NormedSpace<FunctionVectorSpace, SupNormPlaceholder>;\<close>\<close>

definition FunctionSupNormedSpace_members :: struct_decl where
  "FunctionSupNormedSpace_members =
     NormedSpace_members FunctionVectorSpace_type FunctionVectorSpace_members
       (Ty ''SupNormPlaceholder'') (Ty ''RealFunctionElement'') (Ty ''double'')"

text \<open>
  The same environment for a scalar type without division: \<^verbatim>\<open>double\<close> with
  \<^verbatim>\<open>operator/\<close> taken away.
\<close>

definition no_division_env :: type_env where
  "no_division_env =
     example_env\<lparr> binary_op :=
       (\<lambda>op T. case op of
                  Plus \<Rightarrow> binary_op example_env Plus T
                | Minus \<Rightarrow> binary_op example_env Minus T
                | Times \<Rightarrow> binary_op example_env Times T
                | Divide \<Rightarrow> None
                | Equal \<Rightarrow> binary_op example_env Equal T
                | Less \<Rightarrow> binary_op example_env Less T
                | LessEqual \<Rightarrow> binary_op example_env LessEqual T) \<rparr>"














section \<open>A composition whose addition returns a wider type\<close>










section \<open>Properties of the composed structures\<close>



text \<open>
  Claim C1. For every vector-space-like structure \<open>VS\<close>, every norm operation and all
  elements \<open>a\<close> and \<open>b\<close>, the distance of the normed space is the norm applied to
  \<open>VS\<close>'s difference of \<open>a\<close> and \<open>b\<close>; the operation handed to the internal metric
  structure is the induced one, built from these two and nothing else.
\<close>

theorem NormedSpace_distance_norm_difference:
  "NormedSpace_distance VS NormFunction a b = NormFunction (difference VS a b)
   \<and> NormedSpace_distance VS NormFunction a b =
       norm (NormedSpace VS NormFunction) (difference (NormedSpace VS NormFunction) a b)
   \<and> distance (metric_space VS NormFunction) = InducedDistance VS NormFunction"
  by (simp add: NormedSpace_distance_def dist_def metric_space_def MetricSpace_def
      InducedDistance_def NormedSpace_def vector_space_like.extend_def
      vector_space_like.truncate_def normed_space.fields_def)

text \<open>
  Claim C3. Each of the entry points addition, scalar\_action, negation, zero\_supplier,
  equality and difference of a normed space over \<open>VS\<close> is the corresponding entry point
  of \<open>VS\<close>.
\<close>

theorem NormedSpace_inherits:
  "addition (NormedSpace VS NormFunction) = addition VS
   \<and> scalar_action (NormedSpace VS NormFunction) = scalar_action VS
   \<and> negation (NormedSpace VS NormFunction) = negation VS
   \<and> zero_supplier (NormedSpace VS NormFunction) = zero_supplier VS
   \<and> equality (NormedSpace VS NormFunction) = equality VS
   \<and> difference (NormedSpace VS NormFunction) = difference VS"
  by (simp add: NormedSpace_def vector_space_like.extend_def vector_space_like.truncate_def)

text \<open>
  Claim C6. In a metric space composed from a distance operation, \<open>dist a b\<close> and
  \<open>distance a b\<close> are the same value for all \<open>a\<close> and \<open>b\<close>, and both are the value of
  the one stored distance operation.
\<close>

theorem MetricSpace_dist_distance:
  "dist (MetricSpace DistanceFunction) a b = distance (MetricSpace DistanceFunction) a b
   \<and> distance (MetricSpace DistanceFunction) a b = DistanceFunction a b
   \<and> dist (MetricSpace DistanceFunction) a b = DistanceFunction a b"
  by (simp add: dist_def MetricSpace_def)

text \<open>
  Claim C7. With a norm operation that returns 0 on every element, the distance of the
  normed space is 0 on every pair of elements. In the example function space, whose
  placeholder norm is such an operation, the distance from sin to cos and the distance
  from sin to sin are both 0, although the example's equality tells sin and cos apart.
\<close>

theorem zero_norm_distance:
  "NormedSpace_distance VS (\<lambda>x. 0) a b = 0
   \<and> FunctionSupNormedSpace_distance to_string (sin_function std_sin) (cos_function std_cos) = 0
   \<and> FunctionSupNormedSpace_distance to_string (sin_function std_sin) (sin_function std_sin) = 0
   \<and> \<not> equality (FunctionSupNormedSpace to_string) (sin_function std_sin) (cos_function std_cos)
   \<and> sin_function std_sin \<noteq> cos_function std_cos"
  by (simp add: NormedSpace_distance_def dist_def metric_space_def MetricSpace_def
      InducedDistance_def FunctionSupNormedSpace_distance_def
      SupNormPlaceholder_def FunctionSupNormedSpace_def NormedSpace_def
      vector_space_like.extend_def vector_space_like.truncate_def normed_space.fields_def
      FunctionVectorSpace_def
      VectorSpace_def FunctionEquality_def sin_function_def cos_function_def)

text \<open>
  Claim C8. In the example function space, with sin labelled \<open>sin\<close> and cos labelled
  \<open>cos\<close>: the sum of sin and cos is labelled \<open>(sin + cos)\<close>, the negation of cos is
  labelled \<open>(-cos)\<close>, the sum is equal to itself, and sin is not equal to cos.
\<close>

theorem function_space_labels:
  "symbolic_identity (addition (FunctionVectorSpace to_string)
       (sin_function std_sin) (cos_function std_cos)) = ''(sin + cos)''
   \<and> symbolic_identity (negation (FunctionVectorSpace to_string)
       (cos_function std_cos)) = ''(-cos)''
   \<and> equality (FunctionVectorSpace to_string)
       (addition (FunctionVectorSpace to_string) (sin_function std_sin) (cos_function std_cos))
       (addition (FunctionVectorSpace to_string) (sin_function std_sin) (cos_function std_cos))
   \<and> \<not> equality (FunctionVectorSpace to_string) (sin_function std_sin) (cos_function std_cos)"
  by (simp add: FunctionVectorSpace_def VectorSpace_def FunctionAddition_def
      FunctionNegation_def FunctionEquality_def sin_function_def cos_function_def)

section \<open>Properties of composition at the level of types\<close>

lemma OrderedMeasure_declare_functor:
  "OrderedMeasure (declare_functor F params ret env) M = OrderedMeasure env M"
  by (simp add: OrderedMeasure_def declare_functor_def split: option.splits)

lemma binds_same: "binds env args args"
  by (simp add: binds_def list_all2_same)

lemma invoke_result_declare_functor:
  "invoke_result (declare_functor F params ret env) F params = Some ret"
  by (simp add: declare_functor_def binds_same)

lemma default_initializable_declare_functor:
  "default_initializable (declare_functor F params ret env) F"
  by (simp add: declare_functor_def)

lemma member_type_cong: "map_of T name = map_of T' name \<Longrightarrow> member_type T name = member_type T' name"
  by (simp add: member_type_def)

lemma member_expr_cong: "map_of T name = map_of T' name \<Longrightarrow> member_expr T name = member_expr T' name"
  by (simp add: member_expr_def)

lemma call_type_cong:
  "map_of T name = map_of T' name \<Longrightarrow> call_type env T name args = call_type env T' name args"
  by (simp add: call_type_def)

lemma NormedSpace_metric_space_Some:
  assumes "member_type VS ''element_type'' = Some E"
    and "invoke_result env NormFunction [ConstRef E] = Some M"
    and "OrderedMeasure env M"
  shows "NormedSpace_metric_space env VS_T VS NormFunction =
     Some [(''element_type'', TypeAlias E),
           (''measure_type'', TypeAlias M),
           (''distance'', StaticObject (InducedDistance_type VS_T NormFunction)),
           (''dist'', StaticFunction [ConstRef E, ConstRef E] M)]"
  using assms
  by (simp add: NormedSpace_metric_space_def MetricSpace_compose_def
      OrderedMeasure_declare_functor invoke_result_declare_functor
      default_initializable_declare_functor)

lemma NormedSpace_compose_SomeD:
  assumes "NormedSpace_compose env VS_T VS NormFunction = Some NS"
  shows "\<exists>E M. VectorSpaceLike env VS \<and> default_initializable env NormFunction \<and>
           member_type VS ''element_type'' = Some E \<and>
           invoke_result env NormFunction [ConstRef E] = Some M \<and>
           OrderedMeasure env M \<and>
           NS = NormedSpace_members VS_T VS NormFunction E M"
  using assms
  by (auto simp add: NormedSpace_compose_def split: if_splits option.splits)

lemma NormedSpace_compose_SomeI:
  assumes "VectorSpaceLike env VS" and "default_initializable env NormFunction"
    and "member_type VS ''element_type'' = Some E"
    and "invoke_result env NormFunction [ConstRef E] = Some M"
    and "OrderedMeasure env M"
  shows "NormedSpace_compose env VS_T VS NormFunction =
           Some (NormedSpace_members VS_T VS NormFunction E M)"
  using assms NormedSpace_metric_space_Some [OF assms(3,4,5), of VS_T]
  by (simp add: NormedSpace_compose_def)

lemma NormedSpace_members_inherited:
  assumes "name \<in> set [''scalar_type'', ''addition'', ''scalar_action'', ''negation'',
      ''zero_supplier'', ''equality'', ''difference'']"
  shows "map_of (NormedSpace_members VS_T VS NormFunction E M) name = map_of VS name"
  using assms by (auto simp add: NormedSpace_members_def)

lemma NormedSpace_members_element_type:
  "member_type (NormedSpace_members VS_T VS NormFunction E M) ''element_type'' = Some E"
  by (simp add: NormedSpace_members_def member_type_def)

lemma NormedSpace_members_measure_type:
  "member_type (NormedSpace_members VS_T VS NormFunction E M) ''measure_type'' = Some M"
  by (simp add: NormedSpace_members_def member_type_def)

lemma NormedSpace_members_distance:
  "call_type env (NormedSpace_members VS_T VS NormFunction E M) ''distance''
     [ConstRef E, ConstRef E] = Some M"
  by (simp add: NormedSpace_members_def call_type_def binds_same)

lemma NormedSpace_members_VectorSpaceLike:
  assumes "VectorSpaceLike env VS" and "member_type VS ''element_type'' = Some E"
  shows "VectorSpaceLike env (NormedSpace_members VS_T VS NormFunction E M)"
proof -
  let ?NS = "NormedSpace_members VS_T VS NormFunction E M"
  have "member_type ?NS ''scalar_type'' = member_type VS ''scalar_type''"
    by (rule member_type_cong) (simp add: NormedSpace_members_inherited)
  moreover have "member_expr ?NS ''addition'' = member_expr VS ''addition''"
    by (rule member_expr_cong) (simp add: NormedSpace_members_inherited)
  moreover have "member_expr ?NS ''scalar_action'' = member_expr VS ''scalar_action''"
    by (rule member_expr_cong) (simp add: NormedSpace_members_inherited)
  moreover have "member_expr ?NS ''negation'' = member_expr VS ''negation''"
    by (rule member_expr_cong) (simp add: NormedSpace_members_inherited)
  moreover have "member_expr ?NS ''zero_supplier'' = member_expr VS ''zero_supplier''"
    by (rule member_expr_cong) (simp add: NormedSpace_members_inherited)
  moreover have "member_expr ?NS ''equality'' = member_expr VS ''equality''"
    by (rule member_expr_cong) (simp add: NormedSpace_members_inherited)
  moreover have "call_type env ?NS ''difference'' [ConstRef E, ConstRef E] =
      call_type env VS ''difference'' [ConstRef E, ConstRef E]"
    by (rule call_type_cong) (simp add: NormedSpace_members_inherited)
  ultimately show ?thesis
    using assms by (simp add: VectorSpaceLike_def NormedSpace_members_element_type)
qed

text \<open>
  Claim C9. A normed space that has been composed passes the vector-space structural
  check: the names the check looks up are either inherited unchanged from the base or,
  for \<open>element_type\<close>, declared again with the same type. It is therefore accepted as
  the base of a further normed-space composition, with any norm operation that meets the
  norm's own constraints.
\<close>

theorem NormedSpace_is_VectorSpaceLike:
  assumes "NormedSpace_compose env VS_T VS NormFunction = Some NS"
  shows "VectorSpaceLike env NS \<and>
         (default_initializable env Norm2 \<and>
          member_type NS ''element_type'' = Some E \<and>
          invoke_result env Norm2 [ConstRef E] = Some M2 \<and>
          OrderedMeasure env M2
          \<longrightarrow> NormedSpace_compose env (NormedSpace_type VS_T NormFunction) NS Norm2 =
                Some (NormedSpace_members (NormedSpace_type VS_T NormFunction) NS Norm2 E M2))"
proof -
  from NormedSpace_compose_SomeD [OF assms] obtain E' M where
    vs: "VectorSpaceLike env VS" and et: "member_type VS ''element_type'' = Some E'"
    and ns: "NS = NormedSpace_members VS_T VS NormFunction E' M"
    by blast
  have like: "VectorSpaceLike env NS"
    unfolding ns using vs et by (rule NormedSpace_members_VectorSpaceLike)
  then show ?thesis
    by (auto intro: NormedSpace_compose_SomeI)
qed

text \<open>
  Claim C10. A normed space that has been composed passes the metric-space structural
  check: it has the type names \<open>element_type\<close> and \<open>measure_type\<close>, and calling its
  \<open>distance\<close> on two elements has exactly the type \<open>measure_type\<close>. That type is the
  result type of the norm operation, and it is also the \<open>measure_type\<close> of the internal
  metric structure.
\<close>

theorem NormedSpace_is_MetricSpaceLike:
  assumes "NormedSpace_compose env VS_T VS NormFunction = Some NS"
  shows "MetricSpaceLike env NS \<and>
         (\<exists>E M MS. member_type NS ''element_type'' = Some E \<and>
            member_type NS ''measure_type'' = Some M \<and>
            call_type env NS ''distance'' [ConstRef E, ConstRef E] = Some M \<and>
            invoke_result env NormFunction [ConstRef E] = Some M \<and>
            NormedSpace_metric_space env VS_T VS NormFunction = Some MS \<and>
            member_type MS ''measure_type'' = Some M)"
proof -
  from NormedSpace_compose_SomeD [OF assms] obtain E M where
    et: "member_type VS ''element_type'' = Some E"
    and inv: "invoke_result env NormFunction [ConstRef E] = Some M"
    and om: "OrderedMeasure env M"
    and ns: "NS = NormedSpace_members VS_T VS NormFunction E M"
    by blast
  have 1: "member_type NS ''element_type'' = Some E"
    by (simp add: ns NormedSpace_members_element_type)
  have 2: "member_type NS ''measure_type'' = Some M"
    by (simp add: ns NormedSpace_members_measure_type)
  have 3: "call_type env NS ''distance'' [ConstRef E, ConstRef E] = Some M"
    by (simp add: ns NormedSpace_members_distance)
  have 4: "MetricSpaceLike env NS"
    by (simp add: MetricSpaceLike_def 1 2 3)
  note ms = NormedSpace_metric_space_Some [OF et inv om, of VS_T]
  have 5: "member_type (the (NormedSpace_metric_space env VS_T VS NormFunction))
      ''measure_type'' = Some M"
    by (simp add: ms member_type_def)
  show ?thesis
    using 1 2 3 4 5 inv ms by simp
qed











text \<open>
  Claim C4. Composition yields no structure on malformed arguments: a scalar type
  without division is not field-like and the vector space is rejected; a distance
  operation whose result type is not an ordered measure makes the metric space rejected;
  an addition operation that cannot be invoked on two elements makes the vector space
  rejected.
\<close>

theorem composition_rejects_malformed:
  "(binary_op env Divide ScalarType = None \<longrightarrow>
      \<not> FieldLike env ScalarType \<and>
      VectorSpace_compose env ElementType ScalarType Addition ScalarAction Negation
        ZeroSupplier Equality = None)
   \<and> (invoke_result env DistanceFunction [ConstRef ElementType, ConstRef ElementType]
        = Some MeasureType \<and> \<not> OrderedMeasure env MeasureType \<longrightarrow>
      MetricSpace_compose env ElementType DistanceFunction = None)
   \<and> (invoke_result env Addition [ConstRef ElementType, ConstRef ElementType] = None \<longrightarrow>
      \<not> CallableLike env Addition ElementType [ConstRef ElementType, ConstRef ElementType] \<and>
      VectorSpace_compose env ElementType ScalarType Addition ScalarAction Negation
        ZeroSupplier Equality = None)"
  by (simp add: VectorSpace_compose_def VectorSpace_constraints_def FieldLike_def
      CallableLike_def MetricSpace_compose_def)

text \<open>
  The example's structures compose in the example's environment; they are the concrete
  inputs at which the theorems above are applied below.
\<close>

lemmas example_defs =
  example_env_def example_functors_def FunctionVectorSpace_members_def
  VectorSpace_members_def FieldLike_def OrderedMeasure_def CallableLike_def
  member_type_def member_expr_def call_type_def binds_def

lemma FunctionVectorSpace_composes:
  "VectorSpace_compose example_env (Ty ''RealFunctionElement'') (Ty ''double'')
     (Ty ''FunctionAddition'') (Ty ''FunctionScalarAction'') (Ty ''FunctionNegation'')
     (Ty ''FunctionZeroSupplier'') (Ty ''FunctionEquality'') = Some FunctionVectorSpace_members"
  by (simp add: VectorSpace_compose_def VectorSpace_constraints_def example_defs)

lemma FunctionVectorSpace_VectorSpaceLike:
  "VectorSpaceLike example_env FunctionVectorSpace_members"
  by (simp add: VectorSpaceLike_def example_defs)

lemma FunctionSupNormedSpace_composes:
  "NormedSpace_compose example_env FunctionVectorSpace_type FunctionVectorSpace_members
     (Ty ''SupNormPlaceholder'') = Some FunctionSupNormedSpace_members"
  unfolding FunctionSupNormedSpace_members_def
  by (rule NormedSpace_compose_SomeI [OF FunctionVectorSpace_VectorSpaceLike])
    (simp_all add: example_defs)

text \<open>The example's normed space, and a second normed space composed over it.\<close>

theorem NormedSpace_is_VectorSpaceLike_witness:
  "NormedSpace_compose example_env FunctionVectorSpace_type FunctionVectorSpace_members
     (Ty ''SupNormPlaceholder'') = Some FunctionSupNormedSpace_members
   \<and> VectorSpaceLike example_env FunctionSupNormedSpace_members
   \<and> NormedSpace_compose example_env
       (NormedSpace_type FunctionVectorSpace_type (Ty ''SupNormPlaceholder''))
       FunctionSupNormedSpace_members (Ty ''SupNormPlaceholder'') =
     Some (NormedSpace_members
       (NormedSpace_type FunctionVectorSpace_type (Ty ''SupNormPlaceholder''))
       FunctionSupNormedSpace_members (Ty ''SupNormPlaceholder'')
       (Ty ''RealFunctionElement'') (Ty ''double''))"
proof -
  have di: "default_initializable example_env (Ty ''SupNormPlaceholder'')"
    by (simp add: example_env_def example_functors_def)
  have et: "member_type FunctionSupNormedSpace_members ''element_type'' =
      Some (Ty ''RealFunctionElement'')"
    by (simp add: FunctionSupNormedSpace_members_def NormedSpace_members_element_type)
  have inv: "invoke_result example_env (Ty ''SupNormPlaceholder'')
      [ConstRef (Ty ''RealFunctionElement'')] = Some (Ty ''double'')"
    by (simp add: example_env_def example_functors_def)
  have om: "OrderedMeasure example_env (Ty ''double'')"
    by (simp add: example_env_def OrderedMeasure_def)
  show ?thesis
    using NormedSpace_is_VectorSpaceLike [OF FunctionSupNormedSpace_composes,
        of "Ty ''SupNormPlaceholder''" "Ty ''RealFunctionElement''" "Ty ''double''"]
      FunctionSupNormedSpace_composes di et inv om
    by simp
qed

text \<open>The example's normed space is metric-space-like, with measure type \<^verbatim>\<open>double\<close>.\<close>

theorem NormedSpace_is_MetricSpaceLike_witness:
  "NormedSpace_compose example_env FunctionVectorSpace_type FunctionVectorSpace_members
     (Ty ''SupNormPlaceholder'') = Some FunctionSupNormedSpace_members
   \<and> MetricSpaceLike example_env FunctionSupNormedSpace_members
   \<and> member_type FunctionSupNormedSpace_members ''measure_type'' = Some (Ty ''double'')"
  using NormedSpace_is_MetricSpaceLike [OF FunctionSupNormedSpace_composes]
    FunctionSupNormedSpace_composes
  by (simp add: FunctionSupNormedSpace_members_def NormedSpace_members_measure_type)


text \<open>
  \<^verbatim>\<open>double\<close> without division as the scalar type, the unary negation functor in the
  place of addition, and the addition functor (whose result is an element, not an ordered
  measure) as a distance operation.
\<close>

theorem composition_rejects_malformed_witness:
  "binary_op no_division_env Divide (Ty ''double'') = None
   \<and> invoke_result no_division_env (Ty ''FunctionAddition'')
       [ConstRef (Ty ''RealFunctionElement''), ConstRef (Ty ''RealFunctionElement'')]
       = Some (Ty ''RealFunctionElement'')
   \<and> \<not> OrderedMeasure no_division_env (Ty ''RealFunctionElement'')
   \<and> invoke_result no_division_env (Ty ''FunctionNegation'')
       [ConstRef (Ty ''RealFunctionElement''), ConstRef (Ty ''RealFunctionElement'')] = None
   \<and> VectorSpace_compose no_division_env (Ty ''RealFunctionElement'') (Ty ''double'')
       (Ty ''FunctionNegation'') (Ty ''FunctionScalarAction'') (Ty ''FunctionNegation'')
       (Ty ''FunctionZeroSupplier'') (Ty ''FunctionEquality'') = None
   \<and> MetricSpace_compose no_division_env (Ty ''RealFunctionElement'')
       (Ty ''FunctionAddition'') = None"
proof -
  have a: "binary_op no_division_env Divide (Ty ''double'') = None"
    by (simp add: no_division_env_def)
  have b: "invoke_result no_division_env (Ty ''FunctionAddition'')
       [ConstRef (Ty ''RealFunctionElement''), ConstRef (Ty ''RealFunctionElement'')]
       = Some (Ty ''RealFunctionElement'')"
    by (simp add: no_division_env_def example_env_def example_functors_def)
  have c: "\<not> OrderedMeasure no_division_env (Ty ''RealFunctionElement'')"
    by (simp add: no_division_env_def example_env_def OrderedMeasure_def)
  have d: "invoke_result no_division_env (Ty ''FunctionNegation'')
       [ConstRef (Ty ''RealFunctionElement''), ConstRef (Ty ''RealFunctionElement'')] = None"
    by (simp add: no_division_env_def example_env_def example_functors_def)
  show ?thesis
    using composition_rejects_malformed [of no_division_env "Ty ''double''"
        "Ty ''RealFunctionElement''" "Ty ''FunctionNegation''" "Ty ''FunctionScalarAction''"
        "Ty ''FunctionNegation''" "Ty ''FunctionZeroSupplier''" "Ty ''FunctionEquality''"
        "Ty ''FunctionAddition''" "Ty ''RealFunctionElement''"] a b c d
    by simp
qed

end
